theory Spec2Isabelle
  imports Main
begin

section \<open>Shard: launch coordination and editor sessions\<close>

text \<open>
  A shallow embedding of \<^verbatim>\<open>src/main.py\<close>: the class \<^verbatim>\<open>Shard\<close> (the launch
  coordinator with its running indicator, its queue file and its poll loop) and the parts
  of \<^verbatim>\<open>ShardInstance\<close> that load, compare and save a file and read the editor settings.

  Conventions of the model.
  \<^item> A Python \<^verbatim>\<open>str\<close> is a \<^typ>\<open>string\<close>; a \<^typ>\<open>char\<close> stands for a code point
    below 256. Every such string can be encoded as UTF-8, so the handler of
    \<^verbatim>\<open>UnicodeEncodeError\<close> in \<^verbatim>\<open>save_file\<close> has no counterpart here.
  \<^item> A file holds the text that a text-mode read returns: encoding and newline
    translation are below the level of the model. Files that are not valid UTF-8 are
    kept apart (\<open>Legacy\<close>), since the code reads them through its second encoding.
  \<^item> A resolved path is the string the program passes around;
    \<^verbatim>\<open>Path(p).resolve()\<close> of such a string is the string itself.
  \<^item> Directories are not modelled, except for the running indicator (a flag).
  \<^item> Widgets are reduced to what the code reads back: the buffer of the text widget,
    the window title, whether the window still exists, and the dialogs shown.
  \<^item> \<^verbatim>\<open>int\<close> is modelled by \<^typ>\<open>int\<close>, without the interpreter's limit on the
    number of digits that \<^verbatim>\<open>int(str)\<close> accepts.
\<close>

subsection \<open>String primitives\<close>

text \<open>\<^verbatim>\<open>str.isspace\<close> on one character (code points below 256).\<close>

definition is_space :: "char \<Rightarrow> bool" where
  "is_space c = (of_char c \<in> set [9, 10, 11, 12, 13, 28, 29, 30, 31, 32, 133, 160 :: nat])"

definition lstrip :: "string \<Rightarrow> string" where
  "lstrip s = dropWhile is_space s"

definition rstrip :: "string \<Rightarrow> string" where
  "rstrip s = rev (dropWhile is_space (rev s))"

text \<open>\<^verbatim>\<open>s.strip()\<close>\<close>

definition strip :: "string \<Rightarrow> string" where
  "strip s = rstrip (lstrip s)"

text \<open>\<^verbatim>\<open>s.rstrip('\n')\<close>: every trailing newline goes.\<close>

definition rstrip_nl :: "string \<Rightarrow> string" where
  "rstrip_nl s = rev (dropWhile (\<lambda>c. c = CHR 0x0A) (rev s))"

text \<open>\<^verbatim>\<open>s.split(sep)\<close> for a one-character separator; the empty string gives \<^verbatim>\<open>['']\<close>.\<close>

fun py_split :: "char \<Rightarrow> string \<Rightarrow> string list" where
  "py_split sep [] = [[]]"
| "py_split sep (c # cs) =
     (if c = sep then [] # py_split sep cs
      else (case py_split sep cs of [] \<Rightarrow> [[c]] | w # ws \<Rightarrow> (c # w) # ws))"


text \<open>\<^verbatim>\<open>str(x)\<close> of a path-or-None, as the f-string of \<^verbatim>\<open>add_instance_to_list\<close> formats it.\<close>

fun py_str :: "string option \<Rightarrow> string" where
  "py_str None = ''None''"
| "py_str (Some p) = p"

subsection \<open>Paths\<close>

definition is_sep :: "char \<Rightarrow> bool" where
  "is_sep c = (c = CHR ''/'' \<or> c = CHR 0x5C)"

text \<open>\<^verbatim>\<open>p.stem + p.suffix\<close>, the last component of the path.\<close>

definition path_name :: "string \<Rightarrow> string" where
  "path_name p = rev (takeWhile (\<lambda>c. \<not> is_sep c) (rev p))"

text \<open>\<^verbatim>\<open>p.parent\<close>, kept with its final separator, so that \<^verbatim>\<open>p.parent / name\<close> is
  concatenation.\<close>

definition path_parent :: "string \<Rightarrow> string" where
  "path_parent p = rev (dropWhile (\<lambda>c. \<not> is_sep c) (rev p))"

definition path_join :: "string \<Rightarrow> string \<Rightarrow> string" where
  "path_join d n = d @ n"

subsection \<open>The file system\<close>

text \<open>
  What the bytes of a file are to the program: text that decodes as UTF-8, or bytes that
  do not, together with what the second encoding (\<^verbatim>\<open>"ANSI"\<close>) makes of them, if
  anything.
\<close>

datatype file_data = Utf8 string | Legacy "string option"

text \<open>
  A path names no file (and the flag says whether one may be created there), or a file
  with its read permission, its write permission and its data.
\<close>

datatype node = NoFile bool | FileNode bool bool file_data

datatype read_outcome = Content string | PermissionError | FileNotFoundError | DecodeFailed

text \<open>
  The read that the program performs at three places, always in this shape:
  \<^verbatim>\<open>open(p, encoding="UTF-8").read()\<close>, with \<^verbatim>\<open>PermissionError\<close> and
  \<^verbatim>\<open>FileNotFoundError\<close> handled by the caller, and on \<^verbatim>\<open>UnicodeDecodeError\<close> a second
  read under \<^verbatim>\<open>"ANSI"\<close> whose failure (\<^verbatim>\<open>except Exception\<close>) is \<open>DecodeFailed\<close>.
\<close>

fun read_text :: "node \<Rightarrow> read_outcome" where
  "read_text (NoFile _) = FileNotFoundError"
| "read_text (FileNode False _ _) = PermissionError"
| "read_text (FileNode True _ (Utf8 s)) = Content s"
| "read_text (FileNode True _ (Legacy (Some s))) = Content s"
| "read_text (FileNode True _ (Legacy None)) = DecodeFailed"

text \<open>\<^verbatim>\<open>open(p, 'w', encoding="UTF-8").write(c)\<close>; \<open>None\<close> is \<^verbatim>\<open>PermissionError\<close>.\<close>

fun write_text :: "node \<Rightarrow> string \<Rightarrow> node option" where
  "write_text (NoFile True) c = Some (FileNode True True (Utf8 c))"
| "write_text (NoFile False) c = None"
| "write_text (FileNode r True _) c = Some (FileNode r True (Utf8 c))"
| "write_text (FileNode r False _) c = None"

record filesystem =
  marker :: bool
  queue :: string
  save_location_file :: string
  files :: "string \<Rightarrow> node"

subsection \<open>Process state\<close>

record shard_instance =
  filename :: string
  filepath :: string
  new_file :: bool
  buffer :: string
  title :: string
  is_open :: bool

datatype dialog = ShowError string string | ShowWarning string string

text \<open>
  One process: the class attribute \<^verbatim>\<open>Shard.active_instances\<close>, every \<^verbatim>\<open>Toplevel\<close> the
  process has created, the dialogs it has shown, whether it still runs (the hidden
  \<^verbatim>\<open>Tk\<close> master exists and \<^verbatim>\<open>sys.exit\<close> was not reached), \<^verbatim>\<open>sys.argv[0]\<close>, and the
  disk it shares with other processes.
\<close>

record state =
  active_instances :: int
  windows :: "shard_instance list"
  shown :: "dialog list"
  alive :: bool
  argv0 :: string
  disk :: filesystem

definition application_name :: string where
  "application_name = ''Shard''"

definition update_window_title :: "string \<Rightarrow> shard_instance \<Rightarrow> shard_instance" where
  "update_window_title s w = w\<lparr>title := s @ '' - '' @ application_name\<rparr>"

text \<open>\<^verbatim>\<open>self.editor.get("1.0", END)\<close>: the text widget ends its content with a newline.\<close>

definition editor_get :: "shard_instance \<Rightarrow> string" where
  "editor_get w = buffer w @ ''\<newline>''"

definition showerror :: "string \<Rightarrow> string \<Rightarrow> state \<Rightarrow> state" where
  "showerror t m st = st\<lparr>shown := shown st @ [ShowError t m]\<rparr>"

definition showwarning :: "string \<Rightarrow> string \<Rightarrow> state \<Rightarrow> state" where
  "showwarning t m st = st\<lparr>shown := shown st @ [ShowWarning t m]\<rparr>"

subsection \<open>ShardInstance: construction and closing\<close>

definition close_instance :: "shard_instance \<Rightarrow> state \<Rightarrow> shard_instance \<times> state" where
  "close_instance w st =
     (w\<lparr>is_open := False\<rparr>, st\<lparr>active_instances := active_instances st - 1\<rparr>)"

text \<open>The last lines of \<^verbatim>\<open>__init__\<close>: title, then \<^verbatim>\<open>Shard.active_instances += 1\<close>.\<close>

definition init_finish :: "shard_instance \<Rightarrow> state \<Rightarrow> state" where
  "init_finish w st =
     st\<lparr>windows := windows st @ [update_window_title (filename w) w],
        active_instances := active_instances st + 1\<rparr>"

text \<open>The two early returns of \<^verbatim>\<open>__init__\<close>: \<^verbatim>\<open>close_instance\<close>, \<^verbatim>\<open>showerror\<close>, \<^verbatim>\<open>return\<close>.\<close>

definition init_abort :: "string \<Rightarrow> shard_instance \<Rightarrow> state \<Rightarrow> state" where
  "init_abort msg w st =
     (let (w', st') = close_instance w st;
          st'' = showerror ''Error'' msg st'
      in st''\<lparr>windows := windows st'' @ [w']\<rparr>)"

text \<open>
  \<^verbatim>\<open>ShardInstance.__init__\<close>: the window is created with the name Untitled, the path of
  the script and \<^verbatim>\<open>new_file\<close> set; a given path is then read. The window is appended
  to \<open>windows\<close> whether the constructor finishes or gives up. The constructor's call of
  \<^verbatim>\<open>get_editor_settings\<close> reads and rewrites the settings file only; it is modelled on
  its own below.
\<close>

definition ShardInstance_init :: "string option \<Rightarrow> state \<Rightarrow> state" where
  "ShardInstance_init arg st =
     (let w0 = \<lparr>filename = ''Untitled'', filepath = argv0 st, new_file = True,
                buffer = [], title = [], is_open = True\<rparr>
      in case arg of
           None \<Rightarrow> init_finish w0 st
         | Some p \<Rightarrow>
             (let w1 = w0\<lparr>filepath := p, new_file := False\<rparr>
              in case read_text (files (disk st) p) of
                   PermissionError \<Rightarrow> init_abort ''No permissions to view file'' w1 st
                 | FileNotFoundError \<Rightarrow>
                     init_finish (w1\<lparr>new_file := True, filename := path_name p, buffer := []\<rparr>) st
                 | DecodeFailed \<Rightarrow> init_abort ''An unexpected error has occurred'' w1 st
                 | Content c \<Rightarrow>
                     init_finish (w1\<lparr>filename := path_name p, buffer := c\<rparr>) st))"

subsection \<open>Shard: the launch coordinator\<close>

definition close_shard_if_no_instances_running :: "state \<Rightarrow> state" where
  "close_shard_if_no_instances_running st =
     (if active_instances st \<le> 0
      then st\<lparr>alive := False,
              windows := map (\<lambda>w. w\<lparr>is_open := False\<rparr>) (windows st),
              disk := (disk st)\<lparr>marker := False\<rparr>\<rparr>
      else st)"

definition add_instance_to_list :: "string option \<Rightarrow> state \<Rightarrow> state" where
  "add_instance_to_list path st =
     st\<lparr>disk := (disk st)\<lparr>queue := queue (disk st) @ ''\<newline>'' @ py_str path\<rparr>\<rparr>"

text \<open>
  \<^verbatim>\<open>create_instance\<close>. The argument is \<^verbatim>\<open>None\<close>, a line of the queue file, or a path that
  the script has resolved; a resolved path is absolute and never prints as \<^verbatim>\<open>None\<close>, so
  the comparison with \<^verbatim>\<open>"None"\<close> is the comparison of the strings.
\<close>

definition create_instance :: "string option \<Rightarrow> bool \<Rightarrow> state \<Rightarrow> state" where
  "create_instance filepath_arg main st =
     (if marker (disk st) \<and> \<not> main then add_instance_to_list filepath_arg st
      else if filepath_arg \<noteq> Some ''None'' then ShardInstance_init filepath_arg st
      else ShardInstance_init None st)"

text \<open>The lines of the queue file that the poll loop turns into calls of
  \<^verbatim>\<open>create_instance(ins, main=True)\<close>.\<close>

definition foreign_requests :: "string \<Rightarrow> string list" where
  "foreign_requests content =
     (let foreign_files = py_split (CHR 0x0A) (strip content)
      in if foreign_files \<noteq> [] then filter (\<lambda>ins. strip ins \<noteq> []) foreign_files else [])"

text \<open>One run of \<^verbatim>\<open>open_instances_from_list\<close>, up to the point where it schedules
  itself again (which it reaches only if the process did not exit).\<close>

definition open_instances_from_list :: "state \<Rightarrow> state" where
  "open_instances_from_list st =
     (let reqs = foreign_requests (queue (disk st));
          st1 = st\<lparr>disk := (disk st)\<lparr>queue := []\<rparr>\<rparr>;
          st2 = fold (\<lambda>ins. create_instance (Some ins) True) reqs st1
      in close_shard_if_no_instances_running st2)"

text \<open>A poll tick: the timer fires only in a process that still runs.\<close>

definition tick :: "state \<Rightarrow> state" where
  "tick st = (if alive st then open_instances_from_list st else st)"






subsection \<open>ShardInstance: the saved state and saving\<close>

text \<open>
  \<^verbatim>\<open>is_file_saved\<close>. The result is what the method returns: \<open>Some b\<close> for a
  boolean, \<open>None\<close> for the bare \<^verbatim>\<open>return\<close> after the window was closed.
\<close>

definition is_file_saved :: "shard_instance \<Rightarrow> state \<Rightarrow> bool option \<times> shard_instance \<times> state" where
  "is_file_saved w st =
     (if new_file w
      then (Some False,
            (if rstrip_nl (editor_get w) \<noteq> []
             then update_window_title (''*'' @ filename w) w
             else update_window_title (filename w) w),
            st)
      else case read_text (files (disk st) (path_join (path_parent (filepath w)) (filename w))) of
             FileNotFoundError \<Rightarrow> (Some False, w\<lparr>new_file := True\<rparr>, st)
           | PermissionError \<Rightarrow>
               (let (w', st') = close_instance w st
                in (None, w', showerror ''Error'' ''No permissions to view file'' st'))
           | DecodeFailed \<Rightarrow>
               (let (w', st') = close_instance w st
                in (None, w', showerror ''Error'' ''An unexpected error has occurred'' st'))
           | Content content \<Rightarrow>
               (let cond = (rstrip_nl content = rstrip_nl (editor_get w))
                in (Some cond,
                    (if \<not> cond then update_window_title (''*'' @ filename w) w
                     else update_window_title (filename w) w),
                    st)))"

definition reserved_chars :: "char list" where
  "reserved_chars =
     [CHR ''/'', CHR 0x5C, CHR '':'', CHR ''*'', CHR ''?'', CHR 0x22, CHR ''<'', CHR ''>'', CHR ''|'']"

definition invalid_filename_message :: string where
  "invalid_filename_message =
     ''Filename cannot contain symbols / '' @ [CHR 0x5C] @ '' : * ? '' @ [CHR 0x22] @ '' < > |''"

text \<open>
  \<^verbatim>\<open>save_file\<close>. The result is \<open>None\<close> for the two bare returns and \<open>Some True\<close> at the
  end. \<^verbatim>\<open>self.editor.get\<close> on a window that was destroyed raises \<^verbatim>\<open>TclError\<close>, which
  ends the callback there.
\<close>

definition save_file ::
  "bool \<Rightarrow> bool \<Rightarrow> shard_instance \<Rightarrow> state \<Rightarrow> bool option \<times> shard_instance \<times> state" where
  "save_file saveAs close_after_saving w st =
     (if strip (filename w) = [] then (None, w, st)
      else if set (filename w) \<inter> set reserved_chars \<noteq> {}
      then (None, w, showwarning ''Invalid Filename'' invalid_filename_message st)
      else if \<not> is_open w then (None, w, st)
      else
        (let target_file = path_join (path_parent (filepath w)) (filename w);
             content = editor_get w;
             st1 = (case write_text (files (disk st) target_file) content of
                      Some n \<Rightarrow> st\<lparr>disk := (disk st)\<lparr>files := (files (disk st))(target_file := n)\<rparr>\<rparr>
                    | None \<Rightarrow> showerror ''Error'' ''No permissions to write to file'' st);
             w1 = (update_window_title (filename w) w)\<lparr>new_file := False\<rparr>;
             (w2, st2) = (if close_after_saving then close_instance w1 st1 else (w1, st1))
         in (Some True, w2, st2)))"

definition set_last_save_location :: "string \<Rightarrow> state \<Rightarrow> state" where
  "set_last_save_location path st = st\<lparr>disk := (disk st)\<lparr>save_location_file := path\<rparr>\<rparr>"

text \<open>
  \<^verbatim>\<open>save_window\<close>. \<open>chosen\<close> is what the save dialog returns (empty when the user
  cancels); the dialog's initial directory has no effect on the state.
\<close>

definition save_window ::
  "bool \<Rightarrow> bool \<Rightarrow> string \<Rightarrow> shard_instance \<Rightarrow> state \<Rightarrow> shard_instance \<times> state" where
  "save_window saveAs close_after_saving chosen w st =
     (let (r, w1, st1) = (if \<not> saveAs then is_file_saved w st else (None, w, st))
      in if \<not> saveAs \<and> r = Some True then (w1, st1)
         else if \<not> saveAs \<and> \<not> new_file w1
         then (let (_, w2, st2) = save_file False close_after_saving w1 st1 in (w2, st2))
         else if chosen \<noteq> []
         then (let w2 = w1\<lparr>filepath := chosen, filename := path_name chosen\<rparr>;
                   st2 = set_last_save_location (path_parent chosen) st1;
                   (_, w3, st3) = save_file saveAs close_after_saving w2 st2
               in (w3, st3))
         else (w1, st1))"

text \<open>
  \<^verbatim>\<open>save_before_closing_instance\<close>. \<open>choice\<close> is the answer to \<^verbatim>\<open>askyesnocancel\<close>
  (\<open>None\<close> for Cancel). If \<^verbatim>\<open>is_file_saved\<close> has destroyed the window, the next
  access to it raises \<^verbatim>\<open>TclError\<close> and the callback ends.
\<close>

definition save_before_closing_instance ::
  "bool option \<Rightarrow> string \<Rightarrow> shard_instance \<Rightarrow> state \<Rightarrow> shard_instance \<times> state" where
  "save_before_closing_instance choice chosen w st =
     (let (r, w1, st1) = is_file_saved w st
      in if r \<noteq> Some True
         then (if \<not> is_open w1 then (w1, st1)
               else if new_file w1 \<and> rstrip_nl (editor_get w1) = [] then close_instance w1 st1
               else (case choice of
                       Some True \<Rightarrow> save_window False True chosen w1 st1
                     | None \<Rightarrow> (w1, st1)
                     | Some False \<Rightarrow> close_instance w1 st1))
         else close_instance w1 st1)"

text \<open>An event of window \<open>i\<close>: delivered only to a window that exists, in a process
  that runs; the window's new state is written back.\<close>

definition on_window ::
  "nat \<Rightarrow> (shard_instance \<Rightarrow> state \<Rightarrow> shard_instance \<times> state) \<Rightarrow> state \<Rightarrow> state" where
  "on_window i f st =
     (if alive st \<and> i < length (windows st) \<and> is_open (windows st ! i)
      then (let (w, st') = f (windows st ! i) st in st'\<lparr>windows := (windows st')[i := w]\<rparr>)
      else st)"

subsection \<open>Editor settings\<close>

















datatype error = ValueError





subsection \<open>Example states\<close>

text \<open>Concrete disks, windows and processes on which the statements below are
  evaluated.\<close>

definition empty_disk :: filesystem where
  "empty_disk = \<lparr>marker = True, queue = [], save_location_file = [], files = (\<lambda>_. NoFile True)\<rparr>"

definition untitled_window :: shard_instance where
  "untitled_window = \<lparr>filename = ''Untitled'', filepath = ''/app/main.py'', new_file = True,
     buffer = [], title = ''Untitled - Shard'', is_open = True\<rparr>"

definition primary_one_window :: state where
  "primary_one_window = \<lparr>active_instances = 1, windows = [untitled_window], shown = [],
     alive = True, argv0 = ''/app/main.py'', disk = empty_disk\<rparr>"





definition readonly_disk :: filesystem where
  "readonly_disk = \<lparr>marker = True, queue = [], save_location_file = [],
     files = (\<lambda>p. if p = ''/docs/a.txt'' then FileNode True False (Utf8 ''old\<newline>'') else NoFile True)\<rparr>"

definition edited_window :: shard_instance where
  "edited_window = \<lparr>filename = ''a.txt'', filepath = ''/docs/a.txt'', new_file = False,
     buffer = ''new text'', title = ''*a.txt - Shard'', is_open = True\<rparr>"

definition editing_process :: state where
  "editing_process = \<lparr>active_instances = 1, windows = [edited_window], shown = [],
     alive = True, argv0 = ''/app/main.py'', disk = readonly_disk\<rparr>"

definition secret_disk :: filesystem where
  "secret_disk = \<lparr>marker = True, queue = ''\<newline>/secret.txt'', save_location_file = [],
     files = (\<lambda>p. if p = ''/secret.txt'' then FileNode False False (Utf8 ''x'') else NoFile True)\<rparr>"

definition primary_with_work :: state where
  "primary_with_work = \<lparr>active_instances = 1, windows = [edited_window], shown = [],
     alive = True, argv0 = ''/app/main.py'', disk = secret_disk\<rparr>"

definition docs_disk :: filesystem where
  "docs_disk = \<lparr>marker = True, queue = [], save_location_file = ''/home/'',
     files = (\<lambda>p. if p = ''/docs/a.txt'' then FileNode True True (Utf8 ''hi\<newline>'') else NoFile True)\<rparr>"

definition saved_window :: shard_instance where
  "saved_window = \<lparr>filename = ''a.txt'', filepath = ''/docs/a.txt'', new_file = False,
     buffer = ''hi'', title = ''a.txt - Shard'', is_open = True\<rparr>"

definition saved_process :: state where
  "saved_process = \<lparr>active_instances = 1, windows = [saved_window], shown = [],
     alive = True, argv0 = ''/app/main.py'', disk = docs_disk\<rparr>"


section \<open>Properties\<close>

subsection \<open>Construction and the poll loop: frame lemmas\<close>

lemmas init_defs = ShardInstance_init_def init_finish_def init_abort_def close_instance_def
  showerror_def update_window_title_def Let_def



lemma init_argv0: "argv0 (ShardInstance_init a st) = argv0 st"
  by (simp add: init_defs split: option.splits read_outcome.splits)




lemma create_main_argv0: "argv0 (create_instance a True st) = argv0 st"
  by (simp add: create_instance_def init_argv0)




lemma fold_create_argv0:
  "argv0 (fold (\<lambda>ins. create_instance (Some ins) True) rs st) = argv0 st"
  by (induction rs arbitrary: st) (simp_all add: create_main_argv0)




lemma close_shard_count:
  "active_instances (close_shard_if_no_instances_running st) = active_instances st"
  by (simp add: close_shard_if_no_instances_running_def)




text \<open>No operation of a session ends the process or touches the running indicator.\<close>
lemma close_instance_keeps:
  "alive (snd (close_instance w st)) = alive st \<and> disk (snd (close_instance w st)) = disk st"
  by (simp add: close_instance_def)






subsection \<open>Strings: stripping and splitting\<close>










lemma py_split_not_Nil: "py_split sep s \<noteq> []"
  by (induction s) (auto split: list.splits)

lemma py_split_sep_Cons: "py_split sep (sep # s) = [] # py_split sep s"
  by simp

lemma py_split_other_Cons:
  "c \<noteq> sep \<Longrightarrow> py_split sep (c # s) = (c # hd (py_split sep s)) # tl (py_split sep s)"
  using py_split_not_Nil [of sep s] by (cases "py_split sep s") auto















subsection \<open>The queue file\<close>

lemma add_instance_queue:
  "queue (disk (add_instance_to_list path s)) = queue (disk s) @ ''\<newline>'' @ py_str path"
  by (simp add: add_instance_to_list_def)









lemmas eval_defs = on_window_def save_before_closing_instance_def save_window_def save_file_def
  is_file_saved_def close_instance_def showerror_def showwarning_def editor_get_def rstrip_nl_def
  update_window_title_def application_name_def path_name_def path_parent_def path_join_def
  is_sep_def strip_def lstrip_def rstrip_def is_space_def reserved_chars_def
  set_last_save_location_def Let_def split_beta


subsection \<open>Saving and loading\<close>





subsection \<open>The settings file\<close>


























section \<open>The claims\<close>

subsection \<open>Handing requests to the running process\<close>








subsection \<open>Process lifetime\<close>




subsection \<open>Fatal errors of a session\<close>

text \<open>
  C6 fails on the code. A running process has one open window and the counter is 1. A
  request for a file without read permission arrives through the queue. The constructor
  calls \<^verbatim>\<open>close_instance\<close> before it has counted the new window, so the counter drops
  to 0, and the same poll tick ends the whole process: the other window is destroyed
  with it and the running indicator is removed.
\<close>

theorem C6_unreadable_request_ends_process:
  "alive primary_with_work
   \<and> map is_open (windows primary_with_work) = [True]
   \<and> active_instances primary_with_work = 1
   \<and> \<not> alive (tick primary_with_work)
   \<and> active_instances (tick primary_with_work) = 0
   \<and> map is_open (windows (tick primary_with_work)) = [False, False]
   \<and> map filepath (windows (tick primary_with_work)) = [''/docs/a.txt'', ''/secret.txt'']
   \<and> shown (tick primary_with_work) = [ShowError ''Error'' ''No permissions to view file'']
   \<and> \<not> marker (disk (tick primary_with_work))"
  by (simp add: primary_with_work_def secret_disk_def edited_window_def tick_def
      open_instances_from_list_def foreign_requests_def create_instance_def ShardInstance_init_def
      init_abort_def close_shard_if_no_instances_running_def eval_defs)

subsection \<open>The saved state of a new file\<close>

text \<open>
  C4, as the code has it. For a session with \<^verbatim>\<open>new_file\<close> set, \<^verbatim>\<open>is_file_saved\<close>
  returns \<^verbatim>\<open>False\<close> (not saved) whatever the buffer holds, and changes nothing but the
  window title, which gets the prefix \<^verbatim>\<open>*\<close> exactly when the buffer without its trailing
  newlines is not empty.
\<close>

theorem C4_new_file_never_saved:
  "new_file w \<Longrightarrow>
     is_file_saved w st =
       (Some False,
        w\<lparr>title := (if rstrip_nl (editor_get w) \<noteq> [] then ''*'' else []) @ filename w @ '' - Shard''\<rparr>,
        st)"
  by (simp add: is_file_saved_def update_window_title_def application_name_def)

theorem C4_new_file_never_saved_witness:
  "new_file (untitled_window\<lparr>buffer := ''abc''\<rparr>)
   \<and> is_file_saved (untitled_window\<lparr>buffer := ''abc''\<rparr>) primary_one_window =
       (Some False, untitled_window\<lparr>buffer := ''abc'', title := ''*Untitled - Shard''\<rparr>, primary_one_window)"
  using C4_new_file_never_saved [of "untitled_window\<lparr>buffer := ''abc''\<rparr>" primary_one_window]
  by (simp add: untitled_window_def rstrip_nl_def editor_get_def)

text \<open>
  C4 as claimed fails: for a new file with an empty buffer \<^verbatim>\<open>is_file_saved\<close> still
  answers \<^verbatim>\<open>False\<close>, that is, not saved.
\<close>

theorem C4_empty_new_file_counterexample:
  "new_file untitled_window
   \<and> rstrip_nl (editor_get untitled_window) = []
   \<and> fst (is_file_saved untitled_window primary_one_window) = Some False"
  by (simp add: untitled_window_def is_file_saved_def editor_get_def rstrip_nl_def)

subsection \<open>Saving\<close>

text \<open>
  C5 fails on the code. A window on \<^verbatim>\<open>/docs/a.txt\<close>, a file that may be read but not
  written, holds edited text; the user closes it and answers Yes to the question whether
  to save. \<^verbatim>\<open>save_file\<close> shows the error dialog and then continues as after a
  successful write: the title loses its \<^verbatim>\<open>*\<close>, and since the save was part of closing,
  the window is closed and the counter decremented, while the file keeps its old
  content. The last conjunct is the same save without closing: the title is reset.
\<close>

theorem C5_denied_save_closes_window:
  "fst (is_file_saved edited_window editing_process) = Some False
   \<and> windows (on_window 0 (save_before_closing_instance (Some True) []) editing_process) =
        [edited_window\<lparr>title := ''a.txt - Shard'', is_open := False\<rparr>]
   \<and> active_instances (on_window 0 (save_before_closing_instance (Some True) []) editing_process) = 0
   \<and> shown (on_window 0 (save_before_closing_instance (Some True) []) editing_process) =
        [ShowError ''Error'' ''No permissions to write to file'']
   \<and> files (disk (on_window 0 (save_before_closing_instance (Some True) []) editing_process)) ''/docs/a.txt''
        = FileNode True False (Utf8 ''old\<newline>'')
   \<and> title (fst (snd (save_file False False edited_window editing_process))) = ''a.txt - Shard''"
  by (simp add: editing_process_def edited_window_def readonly_disk_def eval_defs)

text \<open>
  C9 fails on the code. A window on \<^verbatim>\<open>/docs/a.txt\<close> whose buffer equals the file is
  saved under the name \<^verbatim>\<open>bad:name.txt\<close> chosen in the dialog. \<^verbatim>\<open>save_file\<close> shows the
  warning and writes no file, but \<^verbatim>\<open>save_window\<close> has already bound the session to
  the rejected name and written the last-save-location file; the next
  \<^verbatim>\<open>is_file_saved\<close> finds no such file, reports the session as not saved and makes it a
  new file.
\<close>

theorem C9_rejected_name_rebinds_session:
  "fst (is_file_saved saved_window saved_process) = Some True
   \<and> fst (save_window True False ''/docs/bad:name.txt'' saved_window saved_process) =
        saved_window\<lparr>filepath := ''/docs/bad:name.txt'', filename := ''bad:name.txt''\<rparr>
   \<and> shown (snd (save_window True False ''/docs/bad:name.txt'' saved_window saved_process)) =
        [ShowWarning ''Invalid Filename'' invalid_filename_message]
   \<and> files (disk (snd (save_window True False ''/docs/bad:name.txt'' saved_window saved_process)))
        = files (disk saved_process)
   \<and> save_location_file (disk saved_process) = ''/home/''
   \<and> save_location_file (disk (snd (save_window True False ''/docs/bad:name.txt'' saved_window saved_process)))
        = ''/docs/''
   \<and> fst (is_file_saved (fst (save_window True False ''/docs/bad:name.txt'' saved_window saved_process))
              (snd (save_window True False ''/docs/bad:name.txt'' saved_window saved_process)))
        = Some False
   \<and> new_file (fst (snd (is_file_saved (fst (save_window True False ''/docs/bad:name.txt'' saved_window saved_process))
              (snd (save_window True False ''/docs/bad:name.txt'' saved_window saved_process)))))"
  by (simp add: saved_process_def saved_window_def docs_disk_def eval_defs)



subsection \<open>Reloading the settings\<close>





end
